theory Spec2Isabelle
  imports Main "HOL-Library.Word"
begin

section \<open>JavaScript strings\<close>

text \<open>
  A JavaScript string is a sequence of UTF-16 code units. \<open>js\<close> turns an ASCII literal of
  the source into that representation.
\<close>

type_synonym code_unit = "16 word"
type_synonym jstring = "code_unit list"

definition js :: "string \<Rightarrow> jstring" where
  "js s = map of_char s"

text \<open>The code units that \<open>String.prototype.trim\<close> strips (WhiteSpace and LineTerminator).\<close>

definition isWhiteSpace :: "code_unit \<Rightarrow> bool" where
  "isWhiteSpace c = (c \<in> set [0x0009, 0x000A, 0x000B, 0x000C, 0x000D, 0x0020, 0x00A0, 0x1680,
     0x2000, 0x2001, 0x2002, 0x2003, 0x2004, 0x2005, 0x2006, 0x2007, 0x2008, 0x2009, 0x200A,
     0x2028, 0x2029, 0x202F, 0x205F, 0x3000, 0xFEFF])"

definition trim :: "jstring \<Rightarrow> jstring" where
  "trim s = rev (dropWhile isWhiteSpace (rev (dropWhile isWhiteSpace s)))"

text \<open>A string is truthy when it is not empty: \<open>!s\<close> is \<open>\<not> truthy s\<close>.\<close>

definition truthy :: "jstring \<Rightarrow> bool" where
  "truthy s = (s \<noteq> [])"

text \<open>\<open>!chatId\<close> for \<open>chatId: string | null\<close>: true for null and for the empty string.\<close>

definition falsy_id :: "jstring option \<Rightarrow> bool" where
  "falsy_id c = (case c of None \<Rightarrow> True | Some i \<Rightarrow> i = [])"

text \<open>
  The decimal digits of a number, as a template literal renders an integer below \<open>10^21\<close>
  (millisecond clock readings are far below that).
\<close>

fun digits :: "nat \<Rightarrow> jstring" where
  "digits n = (if n < 10 then [48 + of_nat n] else digits (n div 10) @ [48 + of_nat (n mod 10)])"

declare digits.simps [simp del]

definition numberToString :: "int \<Rightarrow> jstring" where
  "numberToString n = (if n < 0 then js ''-'' @ digits (nat (- n)) else digits (nat n))"

section \<open>The data model (types.ts)\<close>

datatype sender = User | Admin | System

datatype chat_status = New | Read

record chat_message =
  msg_id :: jstring
  msg_text :: jstring
  msg_sender :: sender
  msg_timestamp :: int

record support_chat =
  chat_id :: jstring
  chat_userId :: jstring
  chat_userEmail :: jstring
  chat_lastMessage :: jstring
  chat_timestamp :: int
  chat_status :: chat_status

text \<open>The part of the signed-in Firebase user that the chat code reads.\<close>

record auth_user =
  uid :: jstring
  email :: "jstring option"

text \<open>\<open>user.email || 'anonymous'\<close>\<close>

definition userEmail :: "auth_user \<Rightarrow> jstring" where
  "userEmail u = (case email u of None \<Rightarrow> js ''anonymous''
                  | Some e \<Rightarrow> if truthy e then e else js ''anonymous'')"

text \<open>Notices raised through react-hot-toast: \<open>toast\<close>, \<open>toast.success\<close>, \<open>toast.error\<close>.\<close>

datatype toast = Toast jstring | ToastSuccess jstring | ToastError jstring

section \<open>The document store\<close>

text \<open>
  The fields an \<open>updateDoc\<close> call on a conversation may carry. \<open>upd_timestamp\<close> is set
  when the call passes \<open>timestamp: serverTimestamp()\<close>.
\<close>

record chat_update =
  upd_lastMessage :: "jstring option"
  upd_timestamp :: bool
  upd_status :: "chat_status option"

text \<open>Every call the chat code issues to the store, whether it then succeeds or fails.\<close>

datatype request =
    AddChatDoc jstring jstring jstring chat_status
  | AddMessageDoc jstring jstring sender
  | UpdateChatDoc jstring chat_update
  | GetMessageDocs jstring
  | BatchDeleteMessages jstring "jstring list"
  | DeleteChatDoc jstring

text \<open>
  The store holds the documents of \<open>supportChats\<close> and, for each, the documents of its
  \<open>messages\<close> subcollection (paired with the id of the parent conversation), both in
  creation order. It assigns document ids and server timestamps, and it records the
  calls it receives.
\<close>

record store =
  supportChats :: "support_chat list"
  chatMessages :: "(jstring \<times> chat_message) list"
  nextDocId :: nat
  serverClock :: int
  requests :: "request list"

definition newDocId :: "nat \<Rightarrow> jstring" where
  "newDocId n = js ''doc'' @ digits n"

definition logRequest :: "request \<Rightarrow> store \<Rightarrow> store" where
  "logRequest r s = s\<lparr>requests := requests s @ [r]\<rparr>"

text \<open>
  \<open>addDoc(collection(db, 'supportChats'), chatData)\<close>. The flag says whether the store
  accepts the write; a rejected write changes no document.
\<close>

definition addDoc_chat ::
  "bool \<Rightarrow> jstring \<Rightarrow> jstring \<Rightarrow> jstring \<Rightarrow> chat_status \<Rightarrow> store \<Rightarrow> jstring option \<times> store" where
  "addDoc_chat ok u e t st s =
     (let s0 = logRequest (AddChatDoc u e t st) s in
      if ok then
        (Some (newDocId (nextDocId s0)),
         s0\<lparr>supportChats := supportChats s0 @
               [\<lparr>chat_id = newDocId (nextDocId s0), chat_userId = u, chat_userEmail = e,
                 chat_lastMessage = t, chat_timestamp = serverClock s0, chat_status = st\<rparr>],
            nextDocId := Suc (nextDocId s0),
            serverClock := serverClock s0 + 1\<rparr>)
      else (None, s0))"

text \<open>
  \<open>addDoc(collection(db, 'supportChats', cid, 'messages'), {text, sender, timestamp})\<close>.
  The store does not require the parent document to exist.
\<close>

definition addDoc_message ::
  "bool \<Rightarrow> jstring \<Rightarrow> jstring \<Rightarrow> sender \<Rightarrow> store \<Rightarrow> jstring option \<times> store" where
  "addDoc_message ok cid t sd s =
     (let s0 = logRequest (AddMessageDoc cid t sd) s in
      if ok then
        (Some (newDocId (nextDocId s0)),
         s0\<lparr>chatMessages := chatMessages s0 @
               [(cid, \<lparr>msg_id = newDocId (nextDocId s0), msg_text = t, msg_sender = sd,
                       msg_timestamp = serverClock s0\<rparr>)],
            nextDocId := Suc (nextDocId s0),
            serverClock := serverClock s0 + 1\<rparr>)
      else (None, s0))"

definition applyUpdate :: "chat_update \<Rightarrow> int \<Rightarrow> support_chat \<Rightarrow> support_chat" where
  "applyUpdate u now c =
     c\<lparr>chat_lastMessage := (case upd_lastMessage u of None \<Rightarrow> chat_lastMessage c | Some t \<Rightarrow> t),
       chat_timestamp := (if upd_timestamp u then now else chat_timestamp c),
       chat_status := (case upd_status u of None \<Rightarrow> chat_status c | Some st \<Rightarrow> st)\<rparr>"

definition chatExists :: "jstring \<Rightarrow> store \<Rightarrow> bool" where
  "chatExists cid s = (cid \<in> set (map chat_id (supportChats s)))"

text \<open>
  \<open>updateDoc(doc(db, 'supportChats', cid), fields)\<close>: rejected when the document does not
  exist, or when the store refuses the write.
\<close>

definition updateDoc :: "bool \<Rightarrow> jstring \<Rightarrow> chat_update \<Rightarrow> store \<Rightarrow> bool \<times> store" where
  "updateDoc ok cid u s =
     (let s0 = logRequest (UpdateChatDoc cid u) s in
      if ok \<and> chatExists cid s0 then
        (True,
         s0\<lparr>supportChats :=
               map (\<lambda>c. if chat_id c = cid then applyUpdate u (serverClock s0) c else c)
                 (supportChats s0),
            serverClock := serverClock s0 + 1\<rparr>)
      else (False, s0))"

definition messagesOf :: "jstring \<Rightarrow> store \<Rightarrow> chat_message list" where
  "messagesOf cid s = map snd (filter (\<lambda>p. fst p = cid) (chatMessages s))"

text \<open>\<open>getDocs(messagesRef)\<close>: the ids of the documents of the subcollection.\<close>

definition getDocs :: "bool \<Rightarrow> jstring \<Rightarrow> store \<Rightarrow> jstring list option \<times> store" where
  "getDocs ok cid s =
     (let s0 = logRequest (GetMessageDocs cid) s in
      if ok then (Some (map msg_id (messagesOf cid s0)), s0) else (None, s0))"

text \<open>
  A \<open>writeBatch\<close> holding one delete per listed message document of conversation \<open>cid\<close>,
  committed: all the deletes are applied, or none.
\<close>

definition batchCommit :: "bool \<Rightarrow> jstring \<Rightarrow> jstring list \<Rightarrow> store \<Rightarrow> bool \<times> store" where
  "batchCommit ok cid ids s =
     (let s0 = logRequest (BatchDeleteMessages cid ids) s in
      if ok then
        (True,
         s0\<lparr>chatMessages :=
               filter (\<lambda>p. \<not> (fst p = cid \<and> msg_id (snd p) \<in> set ids)) (chatMessages s0)\<rparr>)
      else (False, s0))"

text \<open>\<open>deleteDoc(doc(db, 'supportChats', cid))\<close>: the subcollection is not touched.\<close>

definition deleteDoc :: "bool \<Rightarrow> jstring \<Rightarrow> store \<Rightarrow> bool \<times> store" where
  "deleteDoc ok cid s =
     (let s0 = logRequest (DeleteChatDoc cid) s in
      if ok then
        (True, s0\<lparr>supportChats := filter (\<lambda>c. chat_id c \<noteq> cid) (supportChats s0)\<rparr>)
      else (False, s0))"

section \<open>The support widget (SupportWidget)\<close>

text \<open>
  The state of one widget instance: its React state, the \<open>lastCheckedTimestamp\<close> ref,
  the signed-in user supplied by the authentication context, and the notices it has
  raised so far.
\<close>

record widget =
  isOpen :: bool
  newMessage :: jstring
  user :: "auth_user option"
  isLoginPromptOpen :: bool
  chatId :: "jstring option"
  messages :: "chat_message list"
  unreadCount :: int
  lastCheckedTimestamp :: int
  toasts :: "toast list"

text \<open>The state at mount; \<open>now\<close> is the reading of \<open>Date.now()\<close> that initialises the ref.\<close>

definition initialWidget :: "int \<Rightarrow> auth_user option \<Rightarrow> widget" where
  "initialWidget now u =
     \<lparr>isOpen = False, newMessage = [], user = u, isLoginPromptOpen = False, chatId = None,
      messages = [], unreadCount = 0, lastCheckedTimestamp = now, toasts = []\<rparr>"

subsection \<open>Effect 1: the chat locator\<close>

definition welcomeMessage :: "int \<Rightarrow> chat_message" where
  "welcomeMessage now =
     \<lparr>msg_id = js ''welcome-msg'',
      msg_text = js ''Hello! Welcome to APNA ADDA Support. How can we assist you today?'',
      msg_sender = System, msg_timestamp = now\<rparr>"

text \<open>
  The effect body, run when \<open>user\<close> changes: without a user it clears the conversation id
  and the messages; with one it only subscribes.
\<close>

definition effect1 :: "widget \<Rightarrow> widget" where
  "effect1 w = (case user w of None \<Rightarrow> w\<lparr>chatId := None, messages := []\<rparr> | Some u \<Rightarrow> w)"

text \<open>
  The snapshot callback of the locator. \<open>docs\<close> are the ids of the conversations owned by
  the user; \<open>seen\<close> is the \<open>messages\<close> value the callback closed over when the effect ran.
\<close>

definition effect1_onSnapshot :: "jstring list \<Rightarrow> chat_message list \<Rightarrow> int \<Rightarrow> widget \<Rightarrow> widget" where
  "effect1_onSnapshot docs seen now w =
     (case docs of
        d # ds \<Rightarrow> w\<lparr>chatId := Some d\<rparr>
      | [] \<Rightarrow> if seen = [] then w\<lparr>chatId := None, messages := [welcomeMessage now]\<rparr>
              else w\<lparr>chatId := None\<rparr>)"

subsection \<open>Effect 2: the message stream\<close>

definition welcomeBackMessage :: "int \<Rightarrow> chat_message" where
  "welcomeBackMessage now =
     \<lparr>msg_id = js ''welcome-back-msg'',
      msg_text = js ''Welcome back! Let us know how we can help.'',
      msg_sender = System, msg_timestamp = now\<rparr>"

text \<open>The effect subscribes only with a conversation id and an open widget.\<close>

definition effect2_subscribed :: "widget \<Rightarrow> bool" where
  "effect2_subscribed w = (if falsy_id (chatId w) then False else isOpen w)"

definition effect2_onSnapshot :: "chat_message list \<Rightarrow> int \<Rightarrow> widget \<Rightarrow> widget" where
  "effect2_onSnapshot msgs now w =
     (if msgs = [] then w\<lparr>messages := [welcomeBackMessage now]\<rparr> else w\<lparr>messages := msgs\<rparr>)"

subsection \<open>Effect 3: the notification watcher\<close>

datatype change_type = Added | Modified | Removed

record doc_change =
  change_kind :: change_type
  change_doc :: chat_message

text \<open>\<open>if (isOpen || !chatId) return;\<close> : otherwise the effect subscribes.\<close>

definition effect3_subscribed :: "widget \<Rightarrow> bool" where
  "effect3_subscribed w = (if isOpen w then False else if falsy_id (chatId w) then False else True)"

text \<open>
  The query of the subscription: the messages of the conversation whose timestamp is
  greater than the cursor read when the effect ran.
\<close>

definition effect3_query :: "jstring \<Rightarrow> int \<Rightarrow> store \<Rightarrow> chat_message list" where
  "effect3_query cid cursor s = filter (\<lambda>m. cursor < msg_timestamp m) (messagesOf cid s)"

definition agentReplied :: toast where
  "agentReplied = Toast (js ''Agent has replied to your message.'')"

text \<open>The body of \<open>snapshot.docChanges().forEach\<close> for one change.\<close>

definition effect3_onChange :: "widget \<Rightarrow> doc_change \<Rightarrow> widget" where
  "effect3_onChange w c =
     (if change_kind c = Added then
        (if msg_sender (change_doc c) = Admin
         then w\<lparr>toasts := toasts w @ [agentReplied], unreadCount := unreadCount w + 1\<rparr>
         else w)
      else w)"

definition effect3_onSnapshot :: "doc_change list \<Rightarrow> widget \<Rightarrow> widget" where
  "effect3_onSnapshot changes w = foldl effect3_onChange w changes"

text \<open>A snapshot reaches the callback only while the subscription exists.\<close>

definition effect3_deliver :: "doc_change list \<Rightarrow> widget \<Rightarrow> widget" where
  "effect3_deliver changes w = (if effect3_subscribed w then effect3_onSnapshot changes w else w)"

subsection \<open>handleSubmit: the send pipeline\<close>

text \<open>
  The readings of the client clock taken while the temporary messages are built: the
  two \<open>Date.now()\<close> calls of the ids and the two \<open>new Date()\<close> calls of the timestamps.
\<close>

record submit_clock =
  now_userId :: int
  now_userDate :: int
  now_systemId :: int
  now_systemDate :: int

text \<open>Whether the store accepts each of the writes the pipeline may issue.\<close>

record submit_net =
  createChat_ok :: bool
  addUserMessage_ok :: bool
  updateChat_ok :: bool
  addSystemMessage_ok :: bool

definition autoReplyText :: jstring where
  "autoReplyText = js ''Our agent will shortly assists you...''"

definition tempUserMessage :: "submit_clock \<Rightarrow> jstring \<Rightarrow> chat_message" where
  "tempUserMessage clk t =
     \<lparr>msg_id = js ''temp-'' @ numberToString (now_userId clk), msg_text = t,
      msg_sender = User, msg_timestamp = now_userDate clk\<rparr>"

definition tempSystemMessage :: "submit_clock \<Rightarrow> chat_message" where
  "tempSystemMessage clk =
     \<lparr>msg_id = js ''temp-'' @ numberToString (now_systemId clk + 1), msg_text = autoReplyText,
      msg_sender = System, msg_timestamp = now_systemDate clk\<rparr>"

text \<open>
  The optimistic update: the input is cleared, and the list is replaced by the two
  temporary messages for a new chat, or extended by the temporary user message.
\<close>

definition submit_optimistic :: "submit_clock \<Rightarrow> widget \<Rightarrow> widget" where
  "submit_optimistic clk w =
     (if falsy_id (chatId w)
      then w\<lparr>newMessage := [],
             messages := [tempUserMessage clk (trim (newMessage w)), tempSystemMessage clk]\<rparr>
      else w\<lparr>newMessage := [],
             messages := messages w @ [tempUserMessage clk (trim (newMessage w))]\<rparr>)"

text \<open>
  The three promises handed to \<open>Promise.all\<close>. Each write is issued before any is
  awaited, so every one of them runs whatever the others do; the result is \<open>True\<close> when
  none was rejected.
\<close>

definition submit_writes ::
  "submit_net \<Rightarrow> jstring \<Rightarrow> jstring \<Rightarrow> bool \<Rightarrow> store \<Rightarrow> bool \<times> store" where
  "submit_writes net cid t isNewChat s =
     (let (r1, s1) = addDoc_message (addUserMessage_ok net) cid t User s;
          (r2, s2) = updateDoc (updateChat_ok net) cid
                       \<lparr>upd_lastMessage = Some t, upd_timestamp = True, upd_status = Some New\<rparr> s1;
          (r3, s3) = (if isNewChat
                      then addDoc_message (addSystemMessage_ok net) cid autoReplyText System s2
                      else (Some [], s2))
      in (r1 \<noteq> None \<and> r2 \<and> r3 \<noteq> None, s3))"

text \<open>
  The \<open>try\<close> block: \<open>Inl\<close> is the state in which it threw, \<open>Inr\<close> the state in which it
  completed. \<open>isNewChat\<close> and the text were computed before the optimistic update.
\<close>

definition submit_try ::
  "submit_net \<Rightarrow> auth_user \<Rightarrow> jstring \<Rightarrow> bool \<Rightarrow> widget \<times> store \<Rightarrow> widget \<times> store + widget \<times> store" where
  "submit_try net u t isNewChat ws =
     (let (w, s) = ws in
      case (if falsy_id (chatId w)
            then (case addDoc_chat (createChat_ok net) (uid u) (userEmail u) t New s of
                    (None, s1) \<Rightarrow> Inl (w, s1)
                  | (Some i, s1) \<Rightarrow> Inr (Some i, w\<lparr>chatId := Some i\<rparr>, s1))
            else Inr (chatId w, w, s)) of
        Inl thrown \<Rightarrow> Inl thrown
      | Inr (currentChatId, w1, s1) \<Rightarrow>
          (case currentChatId of
             None \<Rightarrow> Inl (w1, s1)
           | Some cid \<Rightarrow>
               if cid = [] then Inl (w1, s1)
               else (case submit_writes net cid t isNewChat s1 of
                       (True, s2) \<Rightarrow> Inr (w1, s2)
                     | (False, s2) \<Rightarrow> Inl (w1, s2))))"

text \<open>
  The \<open>catch\<close> block: an error notice, and the entries carrying the temporary ids are
  filtered out of the list as it is then.
\<close>

definition submit_rollback :: "submit_clock \<Rightarrow> jstring \<Rightarrow> bool \<Rightarrow> widget \<Rightarrow> widget" where
  "submit_rollback clk t isNewChat w =
     w\<lparr>toasts := toasts w @ [ToastError (js ''Failed to send message.'')],
       messages := filter (\<lambda>m. if msg_id m = msg_id (tempUserMessage clk t) then False
                                else if isNewChat \<and> msg_id m = msg_id (tempSystemMessage clk)
                                then False else True) (messages w)\<rparr>"

text \<open>One run of the handler, with no other event between its steps.\<close>

definition handleSubmit :: "submit_clock \<Rightarrow> submit_net \<Rightarrow> widget \<times> store \<Rightarrow> widget \<times> store" where
  "handleSubmit clk net ws =
     (let (w, s) = ws in
      if trim (newMessage w) = [] then (w, s)
      else (case user w of
              None \<Rightarrow> (w, s)
            | Some u \<Rightarrow>
                (case submit_try net u (trim (newMessage w)) (falsy_id (chatId w))
                        (submit_optimistic clk w, s) of
                   Inr done \<Rightarrow> done
                 | Inl (w2, s2) \<Rightarrow>
                     (submit_rollback clk (trim (newMessage w)) (falsy_id (chatId w)) w2, s2))))"

subsection \<open>handleSupportIconClick\<close>

definition handleSupportIconClick :: "int \<Rightarrow> widget \<Rightarrow> widget" where
  "handleSupportIconClick now w =
     (case user w of
        None \<Rightarrow> w\<lparr>isLoginPromptOpen := True\<rparr>
      | Some u \<Rightarrow>
          if isOpen w then w\<lparr>isOpen := False\<rparr>
          else w\<lparr>unreadCount := 0, lastCheckedTimestamp := now, isOpen := True\<rparr>)"

subsection \<open>The events of the widget\<close>

text \<open>
  Everything that can change the state of a widget instance: the handlers of its
  buttons and input, a change of the signed-in user (after which Effect 1 runs), the
  snapshot callbacks of its three subscriptions, and a run of the send pipeline. The
  store may also be changed by other clients between two events.
\<close>

datatype event =
    SupportIconClick int
  | CloseClick
  | LoginPromptClose
  | InputChange jstring
  | Submit submit_clock submit_net
  | AuthChange "auth_user option"
  | LocatorSnapshot "jstring list" "chat_message list" int
  | MessagesSnapshot "chat_message list" int
  | NotificationSnapshot "doc_change list"
  | StoreChange store

fun fire :: "event \<Rightarrow> widget \<times> store \<Rightarrow> widget \<times> store" where
  "fire (SupportIconClick now) (w, s) = (handleSupportIconClick now w, s)"
| "fire CloseClick (w, s) = (w\<lparr>isOpen := False\<rparr>, s)"
| "fire LoginPromptClose (w, s) = (w\<lparr>isLoginPromptOpen := False\<rparr>, s)"
| "fire (InputChange v) (w, s) = (w\<lparr>newMessage := v\<rparr>, s)"
| "fire (Submit clk net) (w, s) = handleSubmit clk net (w, s)"
| "fire (AuthChange u) (w, s) = (effect1 (w\<lparr>user := u\<rparr>), s)"
| "fire (LocatorSnapshot docs seen now) (w, s) =
     (if user w = None then w else effect1_onSnapshot docs seen now w, s)"
| "fire (MessagesSnapshot msgs now) (w, s) =
     (if effect2_subscribed w then effect2_onSnapshot msgs now w else w, s)"
| "fire (NotificationSnapshot changes) (w, s) = (effect3_deliver changes w, s)"
| "fire (StoreChange s') (w, s) = (w, s')"

inductive reachable :: "widget \<times> store \<Rightarrow> bool" where
  mount: "reachable (initialWidget now u, s)"
| event: "reachable ws \<Longrightarrow> reachable (fire e ws)"

section \<open>The operator console (SupportManagement)\<close>

record console =
  chats :: "support_chat list"
  selectedChat :: "support_chat option"
  consoleMessages :: "chat_message list"
  reply :: jstring
  isDeleteModalOpen :: bool
  consoleToasts :: "toast list"

subsection \<open>handleSelectChat\<close>

text \<open>
  The handler has no \<open>catch\<close>: a rejected update leaves the selection made and the
  store as it was.
\<close>

definition handleSelectChat :: "bool \<Rightarrow> support_chat \<Rightarrow> console \<times> store \<Rightarrow> console \<times> store" where
  "handleSelectChat ok chat cs =
     (let (c, s) = cs in
      if chat_status chat = New
      then (c\<lparr>selectedChat := Some chat\<rparr>,
            snd (updateDoc ok (chat_id chat)
                   \<lparr>upd_lastMessage = None, upd_timestamp = False, upd_status = Some Read\<rparr> s))
      else (c\<lparr>selectedChat := Some chat\<rparr>, s))"

subsection \<open>handleSendReply\<close>

record reply_net =
  addReply_ok :: bool
  updateLastMessage_ok :: bool

definition replyFailed :: "console \<Rightarrow> console" where
  "replyFailed c = c\<lparr>consoleToasts := consoleToasts c @ [ToastError (js ''Failed to send reply.'')]\<rparr>"

definition handleSendReply :: "reply_net \<Rightarrow> console \<times> store \<Rightarrow> console \<times> store" where
  "handleSendReply net cs =
     (let (c, s) = cs in
      if trim (reply c) = [] then (c, s)
      else (case selectedChat c of
              None \<Rightarrow> (c, s)
            | Some chat \<Rightarrow>
                (case addDoc_message (addReply_ok net) (chat_id chat) (trim (reply c)) Admin s of
                   (None, s1) \<Rightarrow> (replyFailed (c\<lparr>reply := []\<rparr>), s1)
                 | (Some m, s1) \<Rightarrow>
                     (case updateDoc (updateLastMessage_ok net) (chat_id chat)
                             \<lparr>upd_lastMessage = Some (js ''Admin: '' @ trim (reply c)),
                              upd_timestamp = True, upd_status = None\<rparr> s1 of
                        (False, s2) \<Rightarrow> (replyFailed (c\<lparr>reply := []\<rparr>), s2)
                      | (True, s2) \<Rightarrow> (c\<lparr>reply := []\<rparr>, s2)))))"

subsection \<open>handleDeleteChat\<close>

record delete_net =
  getDocs_ok :: bool
  commit_ok :: bool
  deleteDoc_ok :: bool

definition deleteFailed :: "console \<Rightarrow> console" where
  "deleteFailed c = c\<lparr>consoleToasts := consoleToasts c @ [ToastError (js ''Failed to delete chat.'')]\<rparr>"

definition deleteSucceeded :: "console \<Rightarrow> console" where
  "deleteSucceeded c =
     c\<lparr>consoleToasts := consoleToasts c @ [ToastSuccess (js ''Chat deleted successfully.'')],
       selectedChat := None\<rparr>"

definition handleDeleteChat :: "delete_net \<Rightarrow> console \<times> store \<Rightarrow> console \<times> store" where
  "handleDeleteChat net cs =
     (let (c, s) = cs in
      case selectedChat c of
        None \<Rightarrow> (c, s)
      | Some chat \<Rightarrow>
          (case getDocs (getDocs_ok net) (chat_id chat) s of
             (None, s1) \<Rightarrow> (deleteFailed c, s1)
           | (Some ids, s1) \<Rightarrow>
               (case batchCommit (commit_ok net) (chat_id chat) ids s1 of
                  (False, s2) \<Rightarrow> (deleteFailed c, s2)
                | (True, s2) \<Rightarrow>
                    (case deleteDoc (deleteDoc_ok net) (chat_id chat) s2 of
                       (False, s3) \<Rightarrow> (deleteFailed c, s3)
                     | (True, s3) \<Rightarrow> (deleteSucceeded c, s3)))))"

section \<open>Vocabulary of the properties and example states\<close>

text \<open>A change that reports a newly added message written by the operator.\<close>

definition operatorAdded :: "doc_change \<Rightarrow> bool" where
  "operatorAdded c = (change_kind c = Added \<and> msg_sender (change_doc c) = Admin)"

text \<open>The first snapshot of a query reports every document of its result as added.\<close>

definition addedChanges :: "chat_message list \<Rightarrow> doc_change list" where
  "addedChanges ms = map (\<lambda>m. \<lparr>change_kind = Added, change_doc = m\<rparr>) ms"

definition exampleUser :: auth_user where
  "exampleUser = \<lparr>uid = js ''u1'', email = Some (js ''asha@example.org'')\<rparr>"

definition emptyStore :: store where
  "emptyStore = \<lparr>supportChats = [], chatMessages = [], nextDocId = 0, serverClock = 0, requests = []\<rparr>"

definition exampleClock :: submit_clock where
  "exampleClock = \<lparr>now_userId = 5000, now_userDate = 5000, now_systemId = 5000, now_systemDate = 5000\<rparr>"

definition allAccepted :: submit_net where
  "allAccepted = \<lparr>createChat_ok = True, addUserMessage_ok = True, updateChat_ok = True,
                  addSystemMessage_ok = True\<rparr>"

definition allRejected :: submit_net where
  "allRejected = \<lparr>createChat_ok = False, addUserMessage_ok = False, updateChat_ok = False,
                  addSystemMessage_ok = False\<rparr>"

text \<open>A signed-in user with the widget open, no conversation yet, the greeting on display.\<close>

definition firstContactWidget :: widget where
  "firstContactWidget =
     \<lparr>isOpen = True, newMessage = js '' Hi '', user = Some exampleUser, isLoginPromptOpen = False,
      chatId = None, messages = [welcomeMessage 1000], unreadCount = 0,
      lastCheckedTimestamp = 1000, toasts = []\<rparr>"

text \<open>The same widget with only blanks typed into the input.\<close>

definition blankInputWidget :: widget where
  "blankInputWidget = firstContactWidget\<lparr>newMessage := js ''   ''\<rparr>"

text \<open>A hidden widget of a signed-in user that has counted one operator reply.\<close>

definition unreadWidget :: widget where
  "unreadWidget =
     \<lparr>isOpen = False, newMessage = [], user = Some exampleUser, isLoginPromptOpen = False,
      chatId = Some (js ''c1''), messages = [], unreadCount = 1,
      lastCheckedTimestamp = 1000, toasts = [agentReplied]\<rparr>"

text \<open>A hidden widget with nobody signed in and a stale counter.\<close>

definition signedOutWidget :: widget where
  "signedOutWidget =
     \<lparr>isOpen = False, newMessage = [], user = None, isLoginPromptOpen = False,
      chatId = None, messages = [], unreadCount = 2,
      lastCheckedTimestamp = 1000, toasts = []\<rparr>"

definition operatorMessage :: chat_message where
  "operatorMessage = \<lparr>msg_id = js ''m3'', msg_text = js ''Hello, how can I help?'',
                       msg_sender = Admin, msg_timestamp = 1500\<rparr>"

definition userMessage :: chat_message where
  "userMessage = \<lparr>msg_id = js ''m4'', msg_text = js ''Thanks'', msg_sender = User,
                   msg_timestamp = 1600\<rparr>"

definition systemMessage :: chat_message where
  "systemMessage = \<lparr>msg_id = js ''m5'', msg_text = autoReplyText, msg_sender = System,
                     msg_timestamp = 1700\<rparr>"

definition newChat :: support_chat where
  "newChat = \<lparr>chat_id = js ''c1'', chat_userId = js ''u1'', chat_userEmail = js ''asha@example.org'',
              chat_lastMessage = js ''Hi'', chat_timestamp = 2, chat_status = New\<rparr>"

definition readChat :: support_chat where
  "readChat = newChat\<lparr>chat_status := Read\<rparr>"

definition storeWith :: "support_chat \<Rightarrow> store" where
  "storeWith chat =
     \<lparr>supportChats = [chat],
      chatMessages =
        [(js ''c1'', \<lparr>msg_id = js ''m1'', msg_text = js ''Hi'', msg_sender = User, msg_timestamp = 1\<rparr>),
         (js ''c1'', \<lparr>msg_id = js ''m2'', msg_text = autoReplyText, msg_sender = System,
                      msg_timestamp = 3\<rparr>)],
      nextDocId = 7, serverClock = 4, requests = []\<rparr>"

definition consoleWith :: "support_chat option \<Rightarrow> jstring \<Rightarrow> console" where
  "consoleWith sel r =
     \<lparr>chats = [newChat], selectedChat = sel, consoleMessages = [], reply = r,
      isDeleteModalOpen = False, consoleToasts = []\<rparr>"

definition bothAccepted :: reply_net where
  "bothAccepted = \<lparr>addReply_ok = True, updateLastMessage_ok = True\<rparr>"

definition deleteAccepted :: delete_net where
  "deleteAccepted = \<lparr>getDocs_ok = True, commit_ok = True, deleteDoc_ok = True\<rparr>"

definition deleteDocRejected :: delete_net where
  "deleteDocRejected = \<lparr>getDocs_ok = True, commit_ok = True, deleteDoc_ok = False\<rparr>"

definition commitRejected :: delete_net where
  "commitRejected = \<lparr>getDocs_ok = True, commit_ok = False, deleteDoc_ok = True\<rparr>"

section \<open>Facts about strings and the store\<close>

lemma dropWhile_all_iff: "(\<forall>x\<in>set (dropWhile P xs). P x) \<longleftrightarrow> (\<forall>x\<in>set xs. P x)"
  by (induction xs) auto

text \<open>Trimming leaves nothing exactly when the string is empty or made of white space.\<close>

lemma trim_empty_iff: "trim s = [] \<longleftrightarrow> (\<forall>c\<in>set s. isWhiteSpace c)"
  by (simp add: trim_def dropWhile_all_iff)

lemma newDocId_not_empty: "newDocId n \<noteq> []"
  by (simp add: newDocId_def js_def)

lemma filter_fresh: "x \<notin> set (map f xs) \<Longrightarrow> filter (\<lambda>m. f m \<noteq> x) xs = xs"
  by (induction xs) auto

lemma addDoc_chat_eq:
  "addDoc_chat ok u e t st s =
     (if ok then
        (Some (newDocId (nextDocId s)),
         s\<lparr>requests := requests s @ [AddChatDoc u e t st],
           supportChats := supportChats s @
               [\<lparr>chat_id = newDocId (nextDocId s), chat_userId = u, chat_userEmail = e,
                 chat_lastMessage = t, chat_timestamp = serverClock s, chat_status = st\<rparr>],
           nextDocId := Suc (nextDocId s),
           serverClock := serverClock s + 1\<rparr>)
      else (None, s\<lparr>requests := requests s @ [AddChatDoc u e t st]\<rparr>))"
  by (simp add: addDoc_chat_def logRequest_def Let_def)

lemma addDoc_message_eq:
  "addDoc_message ok cid t sd s =
     (if ok then
        (Some (newDocId (nextDocId s)),
         s\<lparr>requests := requests s @ [AddMessageDoc cid t sd],
           chatMessages := chatMessages s @
               [(cid, \<lparr>msg_id = newDocId (nextDocId s), msg_text = t, msg_sender = sd,
                       msg_timestamp = serverClock s\<rparr>)],
           nextDocId := Suc (nextDocId s),
           serverClock := serverClock s + 1\<rparr>)
      else (None, s\<lparr>requests := requests s @ [AddMessageDoc cid t sd]\<rparr>))"
  by (simp add: addDoc_message_def logRequest_def Let_def)

lemma updateDoc_eq:
  "updateDoc ok cid u s =
     (if ok \<and> chatExists cid s then
        (True,
         s\<lparr>requests := requests s @ [UpdateChatDoc cid u],
           supportChats :=
               map (\<lambda>c. if chat_id c = cid then applyUpdate u (serverClock s) c else c)
                 (supportChats s),
           serverClock := serverClock s + 1\<rparr>)
      else (False, s\<lparr>requests := requests s @ [UpdateChatDoc cid u]\<rparr>))"
  by (simp add: updateDoc_def logRequest_def Let_def chatExists_def)

lemma getDocs_eq:
  "getDocs ok cid s =
     (if ok then (Some (map msg_id (messagesOf cid s)), s\<lparr>requests := requests s @ [GetMessageDocs cid]\<rparr>)
      else (None, s\<lparr>requests := requests s @ [GetMessageDocs cid]\<rparr>))"
  by (simp add: getDocs_def logRequest_def Let_def messagesOf_def)

lemma batchCommit_eq:
  "batchCommit ok cid ids s =
     (if ok then
        (True,
         s\<lparr>requests := requests s @ [BatchDeleteMessages cid ids],
           chatMessages :=
               filter (\<lambda>p. \<not> (fst p = cid \<and> msg_id (snd p) \<in> set ids)) (chatMessages s)\<rparr>)
      else (False, s\<lparr>requests := requests s @ [BatchDeleteMessages cid ids]\<rparr>))"
  by (simp add: batchCommit_def logRequest_def Let_def)

lemma deleteDoc_eq:
  "deleteDoc ok cid s =
     (if ok then
        (True, s\<lparr>requests := requests s @ [DeleteChatDoc cid],
                 supportChats := filter (\<lambda>c. chat_id c \<noteq> cid) (supportChats s)\<rparr>)
      else (False, s\<lparr>requests := requests s @ [DeleteChatDoc cid]\<rparr>))"
  by (simp add: deleteDoc_def logRequest_def Let_def)

lemma chatExists_requests [simp]: "chatExists cid (s\<lparr>requests := r\<rparr>) = chatExists cid s"
  by (simp add: chatExists_def)

lemma chatExists_chatMessages [simp]: "chatExists cid (s\<lparr>chatMessages := r\<rparr>) = chatExists cid s"
  by (simp add: chatExists_def)

lemma chatExists_nextDocId [simp]: "chatExists cid (s\<lparr>nextDocId := r\<rparr>) = chatExists cid s"
  by (simp add: chatExists_def)

lemma chatExists_serverClock [simp]: "chatExists cid (s\<lparr>serverClock := r\<rparr>) = chatExists cid s"
  by (simp add: chatExists_def)

lemma applyUpdate_status_only:
  "applyUpdate \<lparr>upd_lastMessage = None, upd_timestamp = False, upd_status = Some st\<rparr> now c =
     c\<lparr>chat_status := st\<rparr>"
  by (simp add: applyUpdate_def)

lemma applyUpdate_reply:
  "applyUpdate \<lparr>upd_lastMessage = Some t, upd_timestamp = True, upd_status = None\<rparr> now c =
     c\<lparr>chat_lastMessage := t, chat_timestamp := now\<rparr>"
  by (simp add: applyUpdate_def)

lemma applyUpdate_send:
  "applyUpdate \<lparr>upd_lastMessage = Some t, upd_timestamp = True, upd_status = Some st\<rparr> now c =
     c\<lparr>chat_lastMessage := t, chat_timestamp := now, chat_status := st\<rparr>"
  by (simp add: applyUpdate_def)

text \<open>An update addressed to an id that no conversation carries changes none of them.\<close>

lemma map_other_chats:
  "\<not> chatExists cid s \<Longrightarrow> map (\<lambda>c. if chat_id c = cid then f c else c) (supportChats s) = supportChats s"
  by (rule map_idI) (auto simp: chatExists_def)

text \<open>
  Deleting the documents that \<open>getDocs\<close> listed for a conversation removes exactly the
  messages of that conversation.
\<close>

lemma batch_removes_subcollection:
  "filter (\<lambda>p. fst p = cid \<longrightarrow> msg_id (snd p) \<notin> msg_id ` set (messagesOf cid s)) (chatMessages s) =
   filter (\<lambda>p. fst p \<noteq> cid) (chatMessages s)"
  by (rule filter_cong) (auto simp: messagesOf_def image_iff)

section \<open>The notification watcher and the unread counter\<close>

lemma effect3_onChange_cases:
  "effect3_onChange w c =
     (if operatorAdded c
      then w\<lparr>toasts := toasts w @ [agentReplied], unreadCount := unreadCount w + 1\<rparr> else w)"
  by (simp add: effect3_onChange_def operatorAdded_def)

lemma effect3_onSnapshot_count:
  "effect3_onSnapshot changes w =
     w\<lparr>toasts := toasts w @ replicate (length (filter operatorAdded changes)) agentReplied,
       unreadCount := unreadCount w + int (length (filter operatorAdded changes))\<rparr>"
  unfolding effect3_onSnapshot_def
proof (induction changes arbitrary: w)
  case Nil
  show ?case by simp
next
  case (Cons c cs)
  have "foldl effect3_onChange w (c # cs) = foldl effect3_onChange (effect3_onChange w c) cs"
    by simp
  also have "\<dots> = (effect3_onChange w c)
      \<lparr>toasts := toasts (effect3_onChange w c) @ replicate (length (filter operatorAdded cs)) agentReplied,
       unreadCount := unreadCount (effect3_onChange w c) + int (length (filter operatorAdded cs))\<rparr>"
    by (rule Cons.IH)
  also have "\<dots> = w
      \<lparr>toasts := toasts w @ replicate (length (filter operatorAdded (c # cs))) agentReplied,
       unreadCount := unreadCount w + int (length (filter operatorAdded (c # cs)))\<rparr>"
    by (simp add: effect3_onChange_cases replicate_append_same)
  finally show ?case .
qed

lemma operatorAdded_first_snapshot:
  "length (filter operatorAdded (addedChanges ms)) = length (filter (\<lambda>m. msg_sender m = Admin) ms)"
  by (induction ms) (simp_all add: addedChanges_def operatorAdded_def)

text \<open>
  Claim C4. While the widget is hidden and a conversation is resolved, a snapshot of the
  notification subscription adds to the Unread Counter the number of its newly added
  operator messages and raises one notice for each of them, and changes nothing else.
  In particular one added message adds one and raises the notice exactly when its
  sender is the operator; an added message of the end user or of the system leaves the
  state as it was. For the first snapshot of the timestamp-filtered query the counter
  grows by the number of operator messages of the conversation newer than the cursor.
\<close>

theorem notification_watcher_counts_operator_messages:
  "effect3_subscribed w \<Longrightarrow>
   effect3_deliver changes w =
     w\<lparr>toasts := toasts w @ replicate (length (filter operatorAdded changes)) agentReplied,
       unreadCount := unreadCount w + int (length (filter operatorAdded changes))\<rparr> \<and>
   effect3_deliver [\<lparr>change_kind = Added, change_doc = m\<rparr>] w =
     (if msg_sender m = Admin
      then w\<lparr>toasts := toasts w @ [agentReplied], unreadCount := unreadCount w + 1\<rparr> else w) \<and>
   unreadCount (effect3_deliver (addedChanges (effect3_query cid cursor s)) w) =
     unreadCount w +
     int (length (filter (\<lambda>m. msg_sender m = Admin \<and> cursor < msg_timestamp m) (messagesOf cid s)))"
proof (intro conjI)
  assume sub: "effect3_subscribed w"
  show "effect3_deliver changes w =
     w\<lparr>toasts := toasts w @ replicate (length (filter operatorAdded changes)) agentReplied,
       unreadCount := unreadCount w + int (length (filter operatorAdded changes))\<rparr>"
    using sub by (simp add: effect3_deliver_def effect3_onSnapshot_count)
  show "effect3_deliver [\<lparr>change_kind = Added, change_doc = m\<rparr>] w =
     (if msg_sender m = Admin
      then w\<lparr>toasts := toasts w @ [agentReplied], unreadCount := unreadCount w + 1\<rparr> else w)"
    using sub
    by (simp add: effect3_deliver_def effect3_onSnapshot_def effect3_onChange_cases operatorAdded_def)
  show "unreadCount (effect3_deliver (addedChanges (effect3_query cid cursor s)) w) =
     unreadCount w +
     int (length (filter (\<lambda>m. msg_sender m = Admin \<and> cursor < msg_timestamp m) (messagesOf cid s)))"
    using sub
    by (simp add: effect3_deliver_def effect3_onSnapshot_count operatorAdded_first_snapshot
          effect3_query_def conj_commute)
qed

theorem notification_watcher_witness:
  "effect3_subscribed unreadWidget \<and>
   unreadCount (effect3_deliver (addedChanges [operatorMessage, userMessage, systemMessage]) unreadWidget) = 2 \<and>
   toasts (effect3_deliver (addedChanges [operatorMessage, userMessage, systemMessage]) unreadWidget) =
     [agentReplied, agentReplied] \<and>
   effect3_deliver [\<lparr>change_kind = Added, change_doc = userMessage\<rparr>] unreadWidget = unreadWidget \<and>
   effect3_deliver [\<lparr>change_kind = Added, change_doc = systemMessage\<rparr>] unreadWidget = unreadWidget \<and>
   unreadCount (effect3_deliver [\<lparr>change_kind = Added, change_doc = operatorMessage\<rparr>] unreadWidget) = 2"
proof -
  have sub: "effect3_subscribed unreadWidget"
    by (simp add: effect3_subscribed_def unreadWidget_def falsy_id_def js_def)
  show ?thesis
    using sub
      notification_watcher_counts_operator_messages[OF sub,
        of "addedChanges [operatorMessage, userMessage, systemMessage]" userMessage "[]" 0 emptyStore]
      notification_watcher_counts_operator_messages[OF sub, of "[]" systemMessage "[]" 0 emptyStore]
      notification_watcher_counts_operator_messages[OF sub, of "[]" operatorMessage "[]" 0 emptyStore]
    by (simp add: addedChanges_def operatorAdded_def operatorMessage_def userMessage_def
          systemMessage_def unreadWidget_def)
qed

lemma submit_try_frame:
  "submit_try net u t b (w, s) = Inl (w', s') \<or> submit_try net u t b (w, s) = Inr (w', s')
   \<Longrightarrow> unreadCount w' = unreadCount w \<and> isOpen w' = isOpen w"
  by (auto simp: submit_try_def split: if_splits prod.splits option.splits sum.splits bool.splits)

text \<open>The send pipeline touches neither the counter nor the visibility.\<close>

lemma handleSubmit_frame:
  "unreadCount (fst (handleSubmit clk net (w, s))) = unreadCount w \<and>
   isOpen (fst (handleSubmit clk net (w, s))) = isOpen w"
proof (cases "trim (newMessage w) = [] \<or> user w = None")
  case True
  then show ?thesis by (auto simp: handleSubmit_def)
next
  case False
  then obtain u where u: "user w = Some u" and t: "trim (newMessage w) \<noteq> []" by auto
  let ?r = "submit_try net u (trim (newMessage w)) (falsy_id (chatId w)) (submit_optimistic clk w, s)"
  have opt: "unreadCount (submit_optimistic clk w) = unreadCount w \<and>
             isOpen (submit_optimistic clk w) = isOpen w"
    by (simp add: submit_optimistic_def)
  show ?thesis
  proof (cases ?r)
    case (Inl a)
    obtain w2 s2 where a: "a = (w2, s2)" by (cases a)
    from Inl a submit_try_frame[of net u "trim (newMessage w)" "falsy_id (chatId w)"
        "submit_optimistic clk w" s w2 s2] opt
    have "unreadCount w2 = unreadCount w \<and> isOpen w2 = isOpen w" by simp
    with Inl a u t show ?thesis by (simp add: handleSubmit_def submit_rollback_def)
  next
    case (Inr b)
    obtain w2 s2 where b: "b = (w2, s2)" by (cases b)
    from Inr b submit_try_frame[of net u "trim (newMessage w)" "falsy_id (chatId w)"
        "submit_optimistic clk w" s w2 s2] opt
    have "unreadCount w2 = unreadCount w \<and> isOpen w2 = isOpen w" by simp
    with Inr b u t show ?thesis by (simp add: handleSubmit_def)
  qed
qed

text \<open>Whatever event makes a hidden widget visible leaves the counter at zero.\<close>

lemma fire_opening_resets:
  "\<not> isOpen w \<Longrightarrow> isOpen (fst (fire e (w, s))) \<Longrightarrow> unreadCount (fst (fire e (w, s))) = 0"
proof (cases e)
  case (Submit clk net)
  then show "\<not> isOpen w \<Longrightarrow> isOpen (fst (fire e (w, s))) \<Longrightarrow> ?thesis"
    using handleSubmit_frame[of clk net w s] by simp
qed (auto simp: handleSupportIconClick_def effect1_def effect1_onSnapshot_def effect2_subscribed_def
       effect2_onSnapshot_def effect3_deliver_def effect3_subscribed_def effect3_onSnapshot_count
       split: option.splits list.splits if_splits)

lemma fire_unreadCount_nonneg:
  "0 \<le> unreadCount w \<Longrightarrow> 0 \<le> unreadCount (fst (fire e (w, s)))"
proof (cases e)
  case (Submit clk net)
  then show "0 \<le> unreadCount w \<Longrightarrow> ?thesis"
    using handleSubmit_frame[of clk net w s] by simp
qed (auto simp: handleSupportIconClick_def effect1_def effect1_onSnapshot_def effect2_subscribed_def
       effect2_onSnapshot_def effect3_deliver_def effect3_subscribed_def effect3_onSnapshot_count
       split: option.splits list.splits if_splits)

lemma reachable_unreadCount_nonneg: "reachable ws \<Longrightarrow> 0 \<le> unreadCount (fst ws)"
proof (induction rule: reachable.induct)
  case (mount now u s)
  show ?case by (simp add: initialWidget_def)
next
  case (event ws e)
  then show ?case using fire_unreadCount_nonneg[of "fst ws" e "snd ws"] by simp
qed

lemma unreadWidget_reachable: "reachable (unreadWidget, emptyStore)"
proof -
  have "(unreadWidget, emptyStore) =
        fire (NotificationSnapshot (addedChanges [operatorMessage]))
          (fire (LocatorSnapshot [js ''c1''] [] 1000) (initialWidget 1000 (Some exampleUser), emptyStore))"
    by (simp add: unreadWidget_def initialWidget_def effect1_onSnapshot_def effect3_deliver_def
          effect3_subscribed_def effect3_onSnapshot_def effect3_onChange_def addedChanges_def
          operatorMessage_def falsy_id_def js_def)
  then show ?thesis
    by (simp only: reachable.intros)
qed

text \<open>
  Claim C5. For a signed-in user, the click that opens a hidden widget sets the Unread
  Counter to 0, the Timestamp Cursor to the current time and the widget to visible, in
  one step. Whatever event turns a hidden widget visible, the counter is 0 right after
  it. In every state the widget can reach from its mount, the counter is not negative.
\<close>

theorem open_resets_counter_and_cursor:
  "(user w \<noteq> None \<and> \<not> isOpen w \<longrightarrow>
      handleSupportIconClick now w =
        w\<lparr>unreadCount := 0, lastCheckedTimestamp := now, isOpen := True\<rparr>) \<and>
   (\<not> isOpen w \<and> isOpen (fst (fire e (w, s))) \<longrightarrow> unreadCount (fst (fire e (w, s))) = 0) \<and>
   (reachable (w, s) \<longrightarrow> 0 \<le> unreadCount w)"
  using fire_opening_resets[of w e s] reachable_unreadCount_nonneg[of "(w, s)"]
  by (auto simp: handleSupportIconClick_def)

theorem open_resets_counter_and_cursor_witness:
  "user unreadWidget \<noteq> None \<and> \<not> isOpen unreadWidget \<and> unreadCount unreadWidget = 1 \<and>
   reachable (unreadWidget, emptyStore) \<and>
   handleSupportIconClick 7000 unreadWidget =
     unreadWidget\<lparr>unreadCount := 0, lastCheckedTimestamp := 7000, isOpen := True\<rparr> \<and>
   isOpen (fst (fire (SupportIconClick 7000) (unreadWidget, emptyStore))) \<and>
   unreadCount (fst (fire (SupportIconClick 7000) (unreadWidget, emptyStore))) = 0 \<and>
   0 \<le> unreadCount unreadWidget"
proof -
  have pre: "user unreadWidget \<noteq> None \<and> \<not> isOpen unreadWidget \<and> unreadCount unreadWidget = 1"
    by (simp add: unreadWidget_def)
  have vis: "isOpen (fst (fire (SupportIconClick 7000) (unreadWidget, emptyStore)))"
    by (simp add: unreadWidget_def handleSupportIconClick_def)
  show ?thesis
    using pre vis unreadWidget_reachable
      open_resets_counter_and_cursor[of unreadWidget 7000 "SupportIconClick 7000" emptyStore]
    by simp
qed

text \<open>
  Claim C10. With nobody signed in, a click on the widget toggle opens the login prompt
  and changes nothing else: the visibility, the Unread Counter and the Timestamp Cursor
  keep their values.
\<close>

theorem click_signed_out_opens_login_prompt_only:
  "user w = None \<Longrightarrow>
   handleSupportIconClick now w = w\<lparr>isLoginPromptOpen := True\<rparr> \<and>
   isOpen (handleSupportIconClick now w) = isOpen w \<and>
   unreadCount (handleSupportIconClick now w) = unreadCount w \<and>
   lastCheckedTimestamp (handleSupportIconClick now w) = lastCheckedTimestamp w"
  by (simp add: handleSupportIconClick_def)

theorem click_signed_out_witness:
  "user signedOutWidget = None \<and>
   handleSupportIconClick 7000 signedOutWidget = signedOutWidget\<lparr>isLoginPromptOpen := True\<rparr> \<and>
   \<not> isOpen (handleSupportIconClick 7000 signedOutWidget) \<and>
   unreadCount (handleSupportIconClick 7000 signedOutWidget) = 2 \<and>
   lastCheckedTimestamp (handleSupportIconClick 7000 signedOutWidget) = 1000"
proof -
  have pre: "user signedOutWidget = None" by (simp add: signedOutWidget_def)
  show ?thesis
    using pre click_signed_out_opens_login_prompt_only[OF pre, of 7000]
    by (simp add: signedOutWidget_def)
qed

section \<open>The send pipeline\<close>

text \<open>
  Claim C8. When the submitted text is empty or made of white space only, or when
  nobody is signed in, the send pipeline returns the widget and the store exactly as
  they were: no optimistic entry, no call to the store, no notice.
\<close>

theorem handleSubmit_rejects_silently:
  "(\<forall>c\<in>set (newMessage w). isWhiteSpace c) \<or> user w = None \<Longrightarrow>
   handleSubmit clk net (w, s) = (w, s)"
  by (auto simp: handleSubmit_def trim_empty_iff)

theorem handleSubmit_rejects_silently_witness:
  "((\<forall>c\<in>set (newMessage blankInputWidget). isWhiteSpace c) \<or> user blankInputWidget = None) \<and>
   newMessage blankInputWidget = js ''   '' \<and>
   handleSubmit exampleClock allAccepted (blankInputWidget, emptyStore) = (blankInputWidget, emptyStore)"
proof -
  have pre: "(\<forall>c\<in>set (newMessage blankInputWidget). isWhiteSpace c) \<or> user blankInputWidget = None"
    by (simp add: blankInputWidget_def firstContactWidget_def js_def isWhiteSpace_def)
  show ?thesis
    using pre handleSubmit_rejects_silently[OF pre, of exampleClock allAccepted emptyStore]
    by (simp add: blankInputWidget_def)
qed

lemma submit_writes_new_chat:
  assumes "addUserMessage_ok net" "updateChat_ok net" "addSystemMessage_ok net" "chatExists cid s"
  shows "submit_writes net cid t True s =
     (True,
      s\<lparr>requests := requests s @
           [AddMessageDoc cid t User,
            UpdateChatDoc cid \<lparr>upd_lastMessage = Some t, upd_timestamp = True, upd_status = Some New\<rparr>,
            AddMessageDoc cid autoReplyText System],
        chatMessages := chatMessages s @
           [(cid, \<lparr>msg_id = newDocId (nextDocId s), msg_text = t, msg_sender = User,
                   msg_timestamp = serverClock s\<rparr>),
            (cid, \<lparr>msg_id = newDocId (Suc (nextDocId s)), msg_text = autoReplyText,
                   msg_sender = System, msg_timestamp = serverClock s + 2\<rparr>)],
        supportChats :=
           map (\<lambda>c. if chat_id c = cid
                    then c\<lparr>chat_lastMessage := t, chat_timestamp := serverClock s + 1, chat_status := New\<rparr>
                    else c) (supportChats s),
        nextDocId := Suc (Suc (nextDocId s)),
        serverClock := serverClock s + 3\<rparr>)"
  using assms
  by (simp add: submit_writes_def addDoc_message_eq updateDoc_eq applyUpdate_send)

text \<open>
  Claim C3. A signed-in user sends a non-blank message while no conversation is
  resolved, the store accepts every write and hands out an id no conversation carries
  yet. Then the store gains exactly one conversation (status new, last message the
  trimmed text), and exactly two messages under it: first the end user's with the
  trimmed text, then the system's auto-reply. The calls were issued in the order
  conversation, end-user message, conversation update, auto-reply; the widget adopts
  the new conversation id and raises no notice.
\<close>

theorem first_contact_round_trip:
  assumes "user w = Some u" and "trim (newMessage w) \<noteq> []" and "falsy_id (chatId w)"
    and "createChat_ok net" and "addUserMessage_ok net" and "updateChat_ok net"
    and "addSystemMessage_ok net"
    and "\<not> chatExists (newDocId (nextDocId s)) s"
  shows "supportChats (snd (handleSubmit clk net (w, s))) =
           supportChats s @
             [\<lparr>chat_id = newDocId (nextDocId s), chat_userId = uid u, chat_userEmail = userEmail u,
               chat_lastMessage = trim (newMessage w), chat_timestamp = serverClock s + 2,
               chat_status = New\<rparr>] \<and>
         chatMessages (snd (handleSubmit clk net (w, s))) =
           chatMessages s @
             [(newDocId (nextDocId s),
               \<lparr>msg_id = newDocId (nextDocId s + 1), msg_text = trim (newMessage w),
                msg_sender = User, msg_timestamp = serverClock s + 1\<rparr>),
              (newDocId (nextDocId s),
               \<lparr>msg_id = newDocId (nextDocId s + 2), msg_text = autoReplyText,
                msg_sender = System, msg_timestamp = serverClock s + 3\<rparr>)] \<and>
         requests (snd (handleSubmit clk net (w, s))) =
           requests s @
             [AddChatDoc (uid u) (userEmail u) (trim (newMessage w)) New,
              AddMessageDoc (newDocId (nextDocId s)) (trim (newMessage w)) User,
              UpdateChatDoc (newDocId (nextDocId s))
                \<lparr>upd_lastMessage = Some (trim (newMessage w)), upd_timestamp = True,
                 upd_status = Some New\<rparr>,
              AddMessageDoc (newDocId (nextDocId s)) autoReplyText System] \<and>
         chatId (fst (handleSubmit clk net (w, s))) = Some (newDocId (nextDocId s)) \<and>
         toasts (fst (handleSubmit clk net (w, s))) = toasts w"
proof -
  let ?cid = "newDocId (nextDocId s)"
  let ?t = "trim (newMessage w)"
  obtain s1 where s1: "addDoc_chat (createChat_ok net) (uid u) (userEmail u) ?t New s = (Some ?cid, s1)"
    and s1_def: "s1 = s\<lparr>requests := requests s @ [AddChatDoc (uid u) (userEmail u) ?t New],
           supportChats := supportChats s @
               [\<lparr>chat_id = ?cid, chat_userId = uid u, chat_userEmail = userEmail u,
                 chat_lastMessage = ?t, chat_timestamp = serverClock s, chat_status = New\<rparr>],
           nextDocId := Suc (nextDocId s),
           serverClock := serverClock s + 1\<rparr>"
    using assms(4) by (simp add: addDoc_chat_eq)
  have created: "chatExists ?cid s1" by (simp add: s1_def chatExists_def)
  have opt: "chatId (submit_optimistic clk w) = chatId w"
    by (simp add: submit_optimistic_def)
  have tried: "submit_try net u ?t True (submit_optimistic clk w, s) =
      Inr ((submit_optimistic clk w)\<lparr>chatId := Some ?cid\<rparr>, snd (submit_writes net ?cid ?t True s1))"
    using assms(3) opt s1 submit_writes_new_chat[OF assms(5,6,7) created, of ?t]
    by (simp add: submit_try_def newDocId_not_empty)
  have run: "handleSubmit clk net (w, s) =
      ((submit_optimistic clk w)\<lparr>chatId := Some ?cid\<rparr>, snd (submit_writes net ?cid ?t True s1))"
    using assms(1,2,3) tried by (simp add: handleSubmit_def)
  have sw: "snd (submit_writes net ?cid ?t True s1) =
      s1\<lparr>requests := requests s1 @
           [AddMessageDoc ?cid ?t User,
            UpdateChatDoc ?cid \<lparr>upd_lastMessage = Some ?t, upd_timestamp = True, upd_status = Some New\<rparr>,
            AddMessageDoc ?cid autoReplyText System],
        chatMessages := chatMessages s1 @
           [(?cid, \<lparr>msg_id = newDocId (nextDocId s1), msg_text = ?t, msg_sender = User,
                   msg_timestamp = serverClock s1\<rparr>),
            (?cid, \<lparr>msg_id = newDocId (Suc (nextDocId s1)), msg_text = autoReplyText,
                   msg_sender = System, msg_timestamp = serverClock s1 + 2\<rparr>)],
        supportChats :=
           map (\<lambda>c. if chat_id c = ?cid
                    then c\<lparr>chat_lastMessage := ?t, chat_timestamp := serverClock s1 + 1, chat_status := New\<rparr>
                    else c) (supportChats s1),
        nextDocId := Suc (Suc (nextDocId s1)),
        serverClock := serverClock s1 + 3\<rparr>"
    by (simp add: submit_writes_new_chat[OF assms(5,6,7) created])
  show ?thesis
    unfolding run sw
    by (simp add: s1_def submit_optimistic_def assms(3) map_other_chats[OF assms(8)])
qed

theorem first_contact_round_trip_witness:
  "user firstContactWidget = Some exampleUser \<and> trim (newMessage firstContactWidget) = js ''Hi'' \<and>
   falsy_id (chatId firstContactWidget) \<and> \<not> chatExists (newDocId (nextDocId emptyStore)) emptyStore \<and>
   supportChats (snd (handleSubmit exampleClock allAccepted (firstContactWidget, emptyStore))) =
     [\<lparr>chat_id = js ''doc0'', chat_userId = js ''u1'', chat_userEmail = js ''asha@example.org'',
       chat_lastMessage = js ''Hi'', chat_timestamp = 2, chat_status = New\<rparr>] \<and>
   chatMessages (snd (handleSubmit exampleClock allAccepted (firstContactWidget, emptyStore))) =
     [(js ''doc0'', \<lparr>msg_id = js ''doc1'', msg_text = js ''Hi'', msg_sender = User, msg_timestamp = 1\<rparr>),
      (js ''doc0'', \<lparr>msg_id = js ''doc2'', msg_text = autoReplyText, msg_sender = System,
                     msg_timestamp = 3\<rparr>)] \<and>
   chatId (fst (handleSubmit exampleClock allAccepted (firstContactWidget, emptyStore))) = Some (js ''doc0'')"
proof -
  have u: "user firstContactWidget = Some exampleUser" by (simp add: firstContactWidget_def)
  have t: "trim (newMessage firstContactWidget) = js ''Hi''"
    by (simp add: firstContactWidget_def trim_def js_def isWhiteSpace_def)
  have t': "trim (newMessage firstContactWidget) \<noteq> []" by (simp add: t js_def)
  have n: "falsy_id (chatId firstContactWidget)" by (simp add: firstContactWidget_def falsy_id_def)
  have f: "\<not> chatExists (newDocId (nextDocId emptyStore)) emptyStore"
    by (simp add: chatExists_def emptyStore_def)
  have ok: "createChat_ok allAccepted" "addUserMessage_ok allAccepted" "updateChat_ok allAccepted"
    "addSystemMessage_ok allAccepted" by (simp_all add: allAccepted_def)
  have ids: "newDocId 0 = js ''doc0''" "newDocId (Suc 0) = js ''doc1''"
    "newDocId (Suc (Suc 0)) = js ''doc2''"
    by (simp_all add: newDocId_def digits.simps js_def)
  show ?thesis
    using u t n f first_contact_round_trip[OF u t' n ok f, of exampleClock]
    by (simp add: t ids emptyStore_def exampleUser_def userEmail_def truthy_def js_def)
qed

text \<open>
  A send into a resolved conversation that fails: when the temporary id is carried by
  no entry of the list before the send, the rollback gives that list back.
\<close>

lemma rollback_resolved_chat:
  assumes "user w = Some u" and "trim (newMessage w) \<noteq> []" and "\<not> falsy_id (chatId w)"
    and "submit_try net u (trim (newMessage w)) False (submit_optimistic clk w, s) = Inl (w2, s2)"
    and "msg_id (tempUserMessage clk (trim (newMessage w))) \<notin> set (map msg_id (messages w))"
  shows "messages (fst (handleSubmit clk net (w, s))) = messages w"
proof -
  have "messages w2 = messages w @ [tempUserMessage clk (trim (newMessage w))]"
    using assms(3,4)
    by (auto simp: submit_try_def submit_optimistic_def split: if_splits option.splits prod.splits bool.splits)
  moreover have "filter (\<lambda>m. msg_id m \<noteq> msg_id (tempUserMessage clk (trim (newMessage w)))) (messages w) = messages w"
    using assms(5) by (rule filter_fresh)
  ultimately show ?thesis
    using assms(1,2,3,4) by (simp add: handleSubmit_def submit_rollback_def)
qed

text \<open>
  Claim C2, at a first-contact send that the store rejects. Before the send the list
  holds the synthesized greeting; after the failed send it is empty: the optimistic
  update replaced the greeting by the two temporary entries, and the rollback removes
  those two without putting the greeting back. No document was written.
\<close>

theorem handleSubmit_first_contact_rollback:
  "messages firstContactWidget = [welcomeMessage 1000] \<and>
   messages (fst (handleSubmit exampleClock allRejected (firstContactWidget, emptyStore))) = [] \<and>
   toasts (fst (handleSubmit exampleClock allRejected (firstContactWidget, emptyStore))) =
     [ToastError (js ''Failed to send message.'')] \<and>
   supportChats (snd (handleSubmit exampleClock allRejected (firstContactWidget, emptyStore))) = [] \<and>
   chatMessages (snd (handleSubmit exampleClock allRejected (firstContactWidget, emptyStore))) = []"
  by (simp add: handleSubmit_def submit_try_def submit_optimistic_def submit_rollback_def
        addDoc_chat_eq firstContactWidget_def emptyStore_def allRejected_def falsy_id_def
        trim_def js_def isWhiteSpace_def)

section \<open>The operator console\<close>

text \<open>
  Claim C6. Selecting a conversation issues one call to the store, a status update to
  read, when the conversation's status is new, and no call at all otherwise; a
  conversation already read leaves the store exactly as it was. The only status the
  selection ever writes is read, on the selected conversation; every other field and
  every other conversation is kept. The selection itself is always made.
\<close>

theorem handleSelectChat_marks_read_once:
  "requests (snd (handleSelectChat ok chat (c, s))) =
     requests s @ (if chat_status chat = New
                   then [UpdateChatDoc (chat_id chat)
                           \<lparr>upd_lastMessage = None, upd_timestamp = False, upd_status = Some Read\<rparr>]
                   else []) \<and>
   supportChats (snd (handleSelectChat ok chat (c, s))) =
     (if chat_status chat = New \<and> ok \<and> chatExists (chat_id chat) s
      then map (\<lambda>d. if chat_id d = chat_id chat then d\<lparr>chat_status := Read\<rparr> else d) (supportChats s)
      else supportChats s) \<and>
   (if chat_status chat = New then True else snd (handleSelectChat ok chat (c, s)) = s) \<and>
   fst (handleSelectChat ok chat (c, s)) = c\<lparr>selectedChat := Some chat\<rparr>"
  by (simp add: handleSelectChat_def updateDoc_eq applyUpdate_status_only)

theorem handleSelectChat_witness:
  "requests (snd (handleSelectChat True newChat (consoleWith None [], storeWith newChat))) =
     [UpdateChatDoc (js ''c1'')
        \<lparr>upd_lastMessage = None, upd_timestamp = False, upd_status = Some Read\<rparr>] \<and>
   supportChats (snd (handleSelectChat True newChat (consoleWith None [], storeWith newChat))) = [readChat] \<and>
   snd (handleSelectChat True readChat (consoleWith None [], storeWith readChat)) = storeWith readChat"
  using handleSelectChat_marks_read_once[of True newChat "consoleWith None []" "storeWith newChat"]
    handleSelectChat_marks_read_once[of True readChat "consoleWith None []" "storeWith readChat"]
  by (simp add: newChat_def readChat_def storeWith_def chatExists_def js_def)

text \<open>
  Claim C7. For a non-blank reply to a selected conversation: the handler asks the store
  to add one message with sender operator and the trimmed text and, once that is
  accepted, to update the conversation with the last message \<open>Admin: \<close> followed by the
  text and a server timestamp, with no status field. Whatever the store answers, the
  status of every conversation is as before. When both writes are accepted, exactly
  that one message is added and only the last message and the timestamp of the
  conversation change.
\<close>

theorem handleSendReply_leaves_status:
  assumes "trim (reply c) \<noteq> []" and "selectedChat c = Some chat"
  shows "requests (snd (handleSendReply net (c, s))) =
           requests s @ AddMessageDoc (chat_id chat) (trim (reply c)) Admin #
             (if addReply_ok net
              then [UpdateChatDoc (chat_id chat)
                      \<lparr>upd_lastMessage = Some (js ''Admin: '' @ trim (reply c)),
                       upd_timestamp = True, upd_status = None\<rparr>]
              else []) \<and>
         map chat_status (supportChats (snd (handleSendReply net (c, s)))) =
           map chat_status (supportChats s) \<and>
         chatMessages (snd (handleSendReply net (c, s))) =
           (if addReply_ok net
            then chatMessages s @
                   [(chat_id chat, \<lparr>msg_id = newDocId (nextDocId s), msg_text = trim (reply c),
                                    msg_sender = Admin, msg_timestamp = serverClock s\<rparr>)]
            else chatMessages s) \<and>
         supportChats (snd (handleSendReply net (c, s))) =
           (if addReply_ok net \<and> updateLastMessage_ok net \<and> chatExists (chat_id chat) s
            then map (\<lambda>d. if chat_id d = chat_id chat
                           then d\<lparr>chat_lastMessage := js ''Admin: '' @ trim (reply c),
                                  chat_timestamp := serverClock s + 1\<rparr>
                           else d) (supportChats s)
            else supportChats s)"
  using assms
  by (simp add: handleSendReply_def addDoc_message_eq updateDoc_eq applyUpdate_reply comp_def
        replyFailed_def)

theorem handleSendReply_witness:
  "trim (reply (consoleWith (Some readChat) (js ''Hello, how can I help?''))) \<noteq> [] \<and>
   selectedChat (consoleWith (Some readChat) (js ''Hello, how can I help?'')) = Some readChat \<and>
   supportChats (snd (handleSendReply bothAccepted
       (consoleWith (Some readChat) (js ''Hello, how can I help?''), storeWith readChat))) =
     [readChat\<lparr>chat_lastMessage := js ''Admin: Hello, how can I help?'', chat_timestamp := 5\<rparr>] \<and>
   map chat_status (supportChats (snd (handleSendReply bothAccepted
       (consoleWith (Some readChat) (js ''Hello, how can I help?''), storeWith readChat)))) = [Read] \<and>
   map (msg_sender \<circ> snd) (chatMessages (snd (handleSendReply bothAccepted
       (consoleWith (Some readChat) (js ''Hello, how can I help?''), storeWith readChat)))) =
     [User, System, Admin]"
proof -
  let ?c = "consoleWith (Some readChat) (js ''Hello, how can I help?'')"
  have t': "trim (reply ?c) \<noteq> []"
    by (simp add: consoleWith_def trim_def js_def isWhiteSpace_def)
  have sel: "selectedChat ?c = Some readChat" by (simp add: consoleWith_def)
  show ?thesis
    using t' sel handleSendReply_leaves_status[OF t' sel, of bothAccepted "storeWith readChat"]
    by (simp add: consoleWith_def trim_def isWhiteSpace_def readChat_def newChat_def storeWith_def
          bothAccepted_def chatExists_def js_def)
qed

text \<open>
  Claim C9. When the reply text is empty or made of white space only, or when no
  conversation is selected, the reply handler returns the console and the store
  exactly as they were.
\<close>

theorem handleSendReply_rejects_silently:
  "(\<forall>x\<in>set (reply c). isWhiteSpace x) \<or> selectedChat c = None \<Longrightarrow>
   handleSendReply net (c, s) = (c, s)"
  by (auto simp: handleSendReply_def trim_empty_iff)

theorem handleSendReply_rejects_silently_witness:
  "((\<forall>x\<in>set (reply (consoleWith (Some readChat) (js ''  ''))). isWhiteSpace x) \<or>
      selectedChat (consoleWith (Some readChat) (js ''  '')) = None) \<and>
   handleSendReply bothAccepted (consoleWith (Some readChat) (js ''  ''), storeWith readChat) =
     (consoleWith (Some readChat) (js ''  ''), storeWith readChat) \<and>
   handleSendReply bothAccepted (consoleWith None (js ''Hello''), storeWith readChat) =
     (consoleWith None (js ''Hello''), storeWith readChat)"
proof -
  have blank: "(\<forall>x\<in>set (reply (consoleWith (Some readChat) (js ''  ''))). isWhiteSpace x) \<or>
      selectedChat (consoleWith (Some readChat) (js ''  '')) = None"
    by (simp add: consoleWith_def js_def isWhiteSpace_def)
  have nosel: "(\<forall>x\<in>set (reply (consoleWith None (js ''Hello''))). isWhiteSpace x) \<or>
      selectedChat (consoleWith None (js ''Hello'')) = None"
    by (simp add: consoleWith_def)
  show ?thesis
    using blank handleSendReply_rejects_silently[OF blank, of bothAccepted "storeWith readChat"]
      handleSendReply_rejects_silently[OF nosel, of bothAccepted "storeWith readChat"]
    by simp
qed

text \<open>
  Claim C1, as the code has it. With a conversation selected, the deletion runs in two
  phases. The messages of the conversation are removed together, by one batch, when
  the enumeration and the commit are accepted, and are all kept otherwise. The
  conversation record is removed only when the delete that follows is accepted too,
  and is kept in every other case. The selection is cleared exactly in that case of
  full success and otherwise stays on the conversation. The run raises exactly one
  notice: the success notice on full success, the error notice on every failure.
\<close>

theorem handleDeleteChat_two_phases:
  assumes "selectedChat c = Some chat"
  shows "chatMessages (snd (handleDeleteChat net (c, s))) =
           (if getDocs_ok net \<and> commit_ok net
            then filter (\<lambda>p. fst p \<noteq> chat_id chat) (chatMessages s) else chatMessages s) \<and>
         supportChats (snd (handleDeleteChat net (c, s))) =
           (if getDocs_ok net \<and> commit_ok net \<and> deleteDoc_ok net
            then filter (\<lambda>d. chat_id d \<noteq> chat_id chat) (supportChats s) else supportChats s) \<and>
         selectedChat (fst (handleDeleteChat net (c, s))) =
           (if getDocs_ok net \<and> commit_ok net \<and> deleteDoc_ok net then None else Some chat) \<and>
         consoleToasts (fst (handleDeleteChat net (c, s))) =
           consoleToasts c @
             [if getDocs_ok net \<and> commit_ok net \<and> deleteDoc_ok net
              then ToastSuccess (js ''Chat deleted successfully.'')
              else ToastError (js ''Failed to delete chat.'')]"
  using assms
  by (simp add: handleDeleteChat_def getDocs_eq batchCommit_eq deleteDoc_eq
        batch_removes_subcollection deleteSucceeded_def deleteFailed_def)

theorem handleDeleteChat_two_phases_witness:
  "selectedChat (consoleWith (Some readChat) []) = Some readChat \<and>
   chatMessages (snd (handleDeleteChat deleteAccepted (consoleWith (Some readChat) [], storeWith readChat))) = [] \<and>
   supportChats (snd (handleDeleteChat deleteAccepted (consoleWith (Some readChat) [], storeWith readChat))) = [] \<and>
   selectedChat (fst (handleDeleteChat deleteAccepted (consoleWith (Some readChat) [], storeWith readChat))) = None \<and>
   consoleToasts (fst (handleDeleteChat deleteAccepted (consoleWith (Some readChat) [], storeWith readChat))) =
     [ToastSuccess (js ''Chat deleted successfully.'')] \<and>
   chatMessages (snd (handleDeleteChat commitRejected (consoleWith (Some readChat) [], storeWith readChat))) =
     chatMessages (storeWith readChat) \<and>
   supportChats (snd (handleDeleteChat commitRejected (consoleWith (Some readChat) [], storeWith readChat))) =
     [readChat] \<and>
   selectedChat (fst (handleDeleteChat commitRejected (consoleWith (Some readChat) [], storeWith readChat))) =
     Some readChat \<and>
   consoleToasts (fst (handleDeleteChat commitRejected (consoleWith (Some readChat) [], storeWith readChat))) =
     [ToastError (js ''Failed to delete chat.'')]"
proof -
  have sel: "selectedChat (consoleWith (Some readChat) []) = Some readChat"
    by (simp add: consoleWith_def)
  show ?thesis
    using sel handleDeleteChat_two_phases[OF sel, of deleteAccepted "storeWith readChat"]
      handleDeleteChat_two_phases[OF sel, of commitRejected "storeWith readChat"]
    by (simp add: consoleWith_def deleteAccepted_def commitRejected_def storeWith_def readChat_def
          newChat_def js_def)
qed

text \<open>
  The deletion is not all-or-nothing: when the store accepts the batch and rejects the
  delete of the conversation record, the messages are gone and the record remains.
\<close>

theorem handleDeleteChat_partial_counterexample:
  "messagesOf (js ''c1'') (storeWith readChat) \<noteq> [] \<and>
   chatExists (js ''c1'') (storeWith readChat) \<and>
   messagesOf (js ''c1'')
     (snd (handleDeleteChat deleteDocRejected (consoleWith (Some readChat) [], storeWith readChat))) = [] \<and>
   chatExists (js ''c1'')
     (snd (handleDeleteChat deleteDocRejected (consoleWith (Some readChat) [], storeWith readChat)))"
  by code_simp

end
